theory Spec2Isabelle
  imports Main "HOL-Library.Sublist"
begin

section \<open>The voting backend (server.js) as a shallow embedding\<close>

text \<open>
  The program is one Express application over two external collaborators: the Firestore
  document store and the Firebase identity platform. The embedding keeps the program's
  own control flow (middleware, handlers, the transaction callback) and makes the
  collaborators explicit:
  \<^item> the store is a pair of collections, each a map from document id to document;
  \<^item> a transaction is the callback's result (an exception, or the buffered writes)
    handed to an executor that commits all writes or none; each run of the executor is
    one atomic step, which is the serialisable behaviour the store's transactions give;
  \<^item> what the collaborators decide on their own (whether a token verifies, whether a
    store or identity call fails, the commit time) is an argument of the model.
  The model starts where a request reaches its route; the global middleware in front of
  the routes (headers, CORS, body parsing, rate limiting) belongs to the libraries.
\<close>

subsection \<open>JavaScript values, truthiness and exceptions\<close>

text \<open>
  The values a JSON body or a token claim can carry. \<open>Undefined\<close> is a missing field.
  Numbers are modelled as integers: only their being zero matters to the program.
\<close>

datatype jsval =
    Undefined
  | Null
  | JBool bool
  | JNum int
  | JStr string
  | JArr "jsval list"
  | JObj "(string \<times> jsval) list"

text \<open>What \<open>!v\<close> and \<open>v || d\<close> test.\<close>

fun truthy :: "jsval \<Rightarrow> bool" where
  "truthy Undefined = False"
| "truthy Null = False"
| "truthy (JBool b) = b"
| "truthy (JNum n) = (n \<noteq> 0)"
| "truthy (JStr s) = (s \<noteq> [])"
| "truthy (JArr xs) = True"
| "truthy (JObj fs) = True"

text \<open>\<open>a || b\<close>\<close>

definition js_or :: "jsval \<Rightarrow> jsval \<Rightarrow> jsval" where
  "js_or a b = (if truthy a then a else b)"

text \<open>\<open>new Error(msg)\<close>; \<open>message\<close> is \<open>error.message\<close>.\<close>

datatype js_error = Error string

fun message :: "js_error \<Rightarrow> string" where
  "message (Error m) = m"

text \<open>The two rejections thrown inside the transaction callback.\<close>

definition AlreadyVoted :: js_error where
  "AlreadyVoted = Error ''You have already voted''"

definition CandidateNotFound :: js_error where
  "CandidateNotFound = Error ''Candidate not found''"

text \<open>
  \<open>s.split(sep)\<close> for a non-empty separator: the pieces of \<open>s\<close> between the occurrences of
  \<open>sep\<close>, scanned from the left. \<open>cur\<close> is the piece being read.
\<close>

fun split_from :: "string \<Rightarrow> string \<Rightarrow> string \<Rightarrow> string list" where
  "split_from sep cur [] = [cur]"
| "split_from sep cur (c # cs) =
     (if prefix sep (c # cs) then cur # split_from sep [] (drop (length sep - 1) cs)
      else split_from sep (cur @ [c]) cs)"

definition split_str :: "string \<Rightarrow> string \<Rightarrow> string list" where
  "split_str s sep = split_from sep [] s"

text \<open>\<open>s.indexOf(sub) >= 0\<close>: \<open>sub\<close> occurs in \<open>s\<close>.\<close>

fun contains_str :: "string \<Rightarrow> string \<Rightarrow> bool" where
  "contains_str [] sub = (sub = [])"
| "contains_str (c # cs) sub = (prefix sub (c # cs) \<or> contains_str cs sub)"

subsection \<open>Documents and the store\<close>

type_synonym timestamp = nat

text \<open>The document written by \<open>transaction.set(voterRef, {...})\<close>.\<close>

record voter =
  name :: jsval
  candidateId :: jsval
  linkedInProfile :: jsval
  votedAt :: "timestamp option"

text \<open>
  Modelled from the spec: the schema of a candidate document, which is seeded outside
  the program (the source names only its field \<open>votes\<close>): a display name and an integer
  vote count. The count is an unbounded integer.
\<close>

record candidate =
  candidateName :: string
  votes :: int

text \<open>
  The documents under the two root collections, each keyed by its path below the
  collection, segments joined by \<open>/\<close>. A key without \<open>/\<close> is a document of the collection
  itself; a longer key is a document of a subcollection.
\<close>

record store =
  voters :: "string \<rightharpoonup> voter"
  candidates :: "string \<rightharpoonup> candidate"

text \<open>
  \<open>db.collection(c).doc(documentPath)\<close> for a root collection, as the store's client
  computes it: the path must be a non-empty string without \<open>//\<close>; it is cut at \<open>/\<close>, empty
  segments at the ends are dropped, and collection plus segments must have an even
  number of components. The result is the key of the document. The two definitions
  before it are the client's exceptions.
\<close>

definition invalid_path :: "string \<Rightarrow> js_error" where
  "invalid_path why = Error (''Value for argument '' @ [CHR 0x22] @ ''documentPath'' @ [CHR 0x22]
     @ '' is not a valid resource path. '' @ why)"

definition not_a_document :: "string \<Rightarrow> js_error" where
  "not_a_document documentPath =
     Error (''Value for argument '' @ [CHR 0x22] @ ''documentPath'' @ [CHR 0x22]
       @ '' must point to a document, but was '' @ [CHR 0x22] @ documentPath @ [CHR 0x22]
       @ ''. Your path does not contain an even number of components.'')"

definition path_segments :: "string \<Rightarrow> string list" where
  "path_segments s = filter (\<lambda>segment. segment \<noteq> []) (split_str s ''/'')"

fun join_path :: "string list \<Rightarrow> string" where
  "join_path [] = []"
| "join_path [x] = x"
| "join_path (x # y # ys) = x @ ''/'' @ join_path (y # ys)"

fun doc :: "jsval \<Rightarrow> js_error + string" where
  "doc (JStr s) =
     (if s = [] then Inl (invalid_path ''Path must be a non-empty string.'')
      else if contains_str s ''//'' then Inl (invalid_path ''Paths must not contain //.'')
      else if even (Suc (length (path_segments s))) then Inr (join_path (path_segments s))
      else Inl (not_a_document s))"
| "doc v = Inl (invalid_path ''Path must be a non-empty string.'')"

subsection \<open>Transactions\<close>

text \<open>
  The writes a transaction callback buffers:
  \<open>transaction.set(voterRef, {name, candidateId, linkedInProfile, votedAt: serverTimestamp()})\<close>
  and \<open>transaction.update(candidateRef, {votes: FieldValue.increment(n)})\<close>.
\<close>

datatype tx_write =
    SetVoter string jsval jsval jsval
  | IncrementVotes string int

text \<open>
  Applying one write at commit time \<open>t\<close>: \<open>set\<close> creates or replaces the document and the
  store fills in the server timestamp; \<open>update\<close> fails on a document that does not exist.
\<close>

fun apply_write :: "timestamp \<Rightarrow> tx_write \<Rightarrow> store \<Rightarrow> js_error + store" where
  "apply_write t (SetVoter ref n c p) st =
     Inr (st\<lparr>voters := (voters st)(ref \<mapsto>
            \<lparr>name = n, candidateId = c, linkedInProfile = p, votedAt = Some t\<rparr>)\<rparr>)"
| "apply_write t (IncrementVotes ref k) st =
     (case candidates st ref of
        None \<Rightarrow> Inl (Error ''NOT_FOUND'')
      | Some c \<Rightarrow> Inr (st\<lparr>candidates := (candidates st)(ref \<mapsto> c\<lparr>votes := votes c + k\<rparr>)\<rparr>))"

fun commit :: "timestamp \<Rightarrow> tx_write list \<Rightarrow> store \<Rightarrow> js_error + store" where
  "commit t [] st = Inr st"
| "commit t (w # ws) st =
     (case apply_write t w st of Inl e \<Rightarrow> Inl e | Inr st' \<Rightarrow> commit t ws st')"

text \<open>
  \<open>db.runTransaction(updateFunction)\<close>. \<open>fault\<close> is a failure of the store itself (the
  promise rejects and nothing is written). Otherwise the callback runs on the current
  snapshot; an exception in it rejects the promise with that exception and rolls back;
  its writes are committed together or not at all.
\<close>

definition runTransaction ::
  "js_error option \<Rightarrow> timestamp \<Rightarrow> (store \<Rightarrow> js_error + tx_write list) \<Rightarrow> store
     \<Rightarrow> (js_error + unit) \<times> store" where
  "runTransaction fault t updateFunction st =
     (case fault of
        Some err \<Rightarrow> (Inl err, st)
      | None \<Rightarrow>
          (case updateFunction st of
             Inl err \<Rightarrow> (Inl err, st)
           | Inr ws \<Rightarrow>
               (case commit t ws st of
                  Inl err \<Rightarrow> (Inl err, st)
                | Inr st' \<Rightarrow> (Inr (), st'))))"

text \<open>The callback of lines 138-155, on the snapshot \<open>snap\<close>.\<close>

definition vote_transaction ::
  "string \<Rightarrow> string \<Rightarrow> jsval \<Rightarrow> jsval \<Rightarrow> jsval \<Rightarrow> store \<Rightarrow> js_error + tx_write list" where
  "vote_transaction voterRef candidateRef nm cid profile snap =
     (if voters snap voterRef \<noteq> None then Inl (Error ''You have already voted'')
      else if candidates snap candidateRef = None then Inl (Error ''Candidate not found'')
      else Inr [SetVoter voterRef nm cid (js_or profile Null),
                IncrementVotes candidateRef 1])"

text \<open>
  The spec's \<open>castVote(subjectId, candidateId, optionalProfileRef)\<close>: the transaction of the
  vote route run by a working store at time \<open>t\<close>, with the display name the route passes in.
\<close>

definition castVote ::
  "timestamp \<Rightarrow> string \<Rightarrow> jsval \<Rightarrow> string \<Rightarrow> jsval \<Rightarrow> store \<Rightarrow> (js_error + unit) \<times> store" where
  "castVote t subjectId nm cid profile st =
     runTransaction None t (vote_transaction subjectId cid nm (JStr cid) profile) st"

text \<open>
  The algorithm as the spec words it in section 4.1, steps 1 to 5, directly on the
  store; \<open>profileRef\<close> is the profile reference that is stored. The transaction of the
  source is compared with it below.
\<close>

definition castVote_spec ::
  "timestamp \<Rightarrow> string \<Rightarrow> jsval \<Rightarrow> string \<Rightarrow> jsval \<Rightarrow> store \<Rightarrow> (js_error + unit) \<times> store" where
  "castVote_spec t subjectId nm cid profileRef st =
     (case voters st subjectId of
        Some v \<Rightarrow> (Inl AlreadyVoted, st)
      | None \<Rightarrow>
          (case candidates st cid of
             None \<Rightarrow> (Inl CandidateNotFound, st)
           | Some c \<Rightarrow>
               (Inr (),
                st\<lparr>voters := (voters st)(subjectId \<mapsto>
                      \<lparr>name = nm, candidateId = JStr cid, linkedInProfile = profileRef,
                       votedAt = Some t\<rparr>),
                   candidates := (candidates st)(cid \<mapsto> c\<lparr>votes := votes c + 1\<rparr>)\<rparr>)))"

subsection \<open>Responses and middleware\<close>

text \<open>
  What a route sends: \<open>res.status(n).json({message})\<close>, \<open>json({message, error})\<close>, the two
  listings (unordered snapshots), \<open>res.send(text)\<close>, \<open>res.redirect(url)\<close> and the login page
  that posts the minted token to the opening window.
\<close>

datatype candidate_json = CandidateJson string string int

datatype voter_json = VoterJson string jsval jsval jsval "timestamp option"

datatype body =
    Message string
  | MessageError string string
  | CandidateList "candidate_json set"
  | VoterList "voter_json set"
  | Text string
  | Redirect string
  | LoginPage string

datatype response = Response nat body

text \<open>The decoded token that \<open>verifyIdToken\<close> yields: the fields the program reads.\<close>

record decoded_token =
  uid :: string
  displayName :: jsval
  admin :: jsval

text \<open>
  \<open>verifyUser\<close>: \<open>Inl\<close> is the response sent without calling \<open>next()\<close>, \<open>Inr\<close> the value put
  in \<open>req.user\<close>. \<open>verifyIdToken\<close> is the identity platform's check; the header is \<open>None\<close>
  when the request has none. An index past the end of the split is \<open>undefined\<close>, which
  the platform refuses.
\<close>

definition verifyUser ::
  "(string \<Rightarrow> js_error + decoded_token) \<Rightarrow> string option \<Rightarrow> response + decoded_token" where
  "verifyUser verifyIdToken authorization =
     (case authorization of
        None \<Rightarrow> Inl (Response 401 (Message ''Unauthorized''))
      | Some authHeader \<Rightarrow>
          if authHeader = [] \<or> \<not> prefix ''Bearer '' authHeader
          then Inl (Response 401 (Message ''Unauthorized''))
          else (case split_str authHeader ''Bearer '' of
                  p # idToken # rest \<Rightarrow>
                    (case verifyIdToken idToken of
                       Inl err \<Rightarrow> Inl (Response 401 (Message ''Invalid or expired token''))
                     | Inr decodedToken \<Rightarrow> Inr decodedToken)
                | _ \<Rightarrow> Inl (Response 401 (Message ''Invalid or expired token''))))"

text \<open>\<open>requireAdmin\<close>: \<open>Some\<close> is the response sent, \<open>None\<close> is \<open>next()\<close>.\<close>

definition requireAdmin :: "decoded_token \<Rightarrow> response option" where
  "requireAdmin user =
     (if \<not> truthy (admin user) then Some (Response 403 (Message ''Access denied (Admin only)''))
      else None)"

subsection \<open>Route handlers\<close>

text \<open>
  The handler of \<open>POST /api/vote\<close> (the function after \<open>verifyUser\<close>). \<open>vote_try\<close> is the body
  of its \<open>try\<close> block: \<open>Inl\<close> is the exception it throws. \<open>vote_catch\<close> is the \<open>catch\<close> block.
\<close>

definition vote_try ::
  "js_error option \<Rightarrow> timestamp \<Rightarrow> decoded_token \<Rightarrow> jsval \<Rightarrow> jsval \<Rightarrow> store
     \<Rightarrow> (js_error + response) \<times> store" where
  "vote_try fault t user cid profile st =
     (let userId = uid user;
          nm = js_or (displayName user) (JStr ''Anonymous'')
      in if \<not> truthy cid then (Inr (Response 400 (Message ''Candidate ID required'')), st)
         else (case doc (JStr userId) of
                 Inl err \<Rightarrow> (Inl err, st)
               | Inr voterRef \<Rightarrow>
                   (case doc cid of
                      Inl err \<Rightarrow> (Inl err, st)
                    | Inr candidateRef \<Rightarrow>
                        (case runTransaction fault t
                                (vote_transaction voterRef candidateRef nm cid profile) st of
                           (Inl err, st') \<Rightarrow> (Inl err, st')
                         | (Inr u, st') \<Rightarrow>
                             (Inr (Response 200 (Message ''Vote successful!'')), st')))))"

definition vote_catch :: "js_error \<Rightarrow> response" where
  "vote_catch err =
     Response 400 (Message (if message err \<noteq> [] then message err else ''Voting failed''))"

definition vote_handler ::
  "js_error option \<Rightarrow> timestamp \<Rightarrow> decoded_token \<Rightarrow> jsval \<Rightarrow> jsval \<Rightarrow> store
     \<Rightarrow> response \<times> store" where
  "vote_handler fault t user cid profile st =
     (case vote_try fault t user cid profile st of
        (Inr res, st') \<Rightarrow> (res, st')
      | (Inl err, st') \<Rightarrow> (vote_catch err, st'))"

text \<open>
  \<open>GET /api/candidates\<close> and the handler of \<open>GET /api/voters\<close>: a snapshot of the collection
  (its own documents, not those of subcollections), or the store's failure. The ISO
  rendering of \<open>votedAt\<close> is left as the timestamp.
\<close>

definition collection_docs :: "(string \<rightharpoonup> 'a) \<Rightarrow> (string \<times> 'a) set" where
  "collection_docs m = {(i, d). m i = Some d \<and> CHR ''/'' \<notin> set i}"

definition candidates_handler :: "js_error option \<Rightarrow> store \<Rightarrow> response" where
  "candidates_handler fault st =
     (case fault of
        Some err \<Rightarrow> Response 500 (MessageError ''Error fetching candidates'' (message err))
      | None \<Rightarrow>
          Response 200 (CandidateList
            ((\<lambda>(i, c). CandidateJson i (candidateName c) (votes c))
               ` collection_docs (candidates st))))"

definition voters_handler :: "js_error option \<Rightarrow> store \<Rightarrow> response" where
  "voters_handler fault st =
     (case fault of
        Some err \<Rightarrow> Response 500 (MessageError ''Error fetching voters'' (message err))
      | None \<Rightarrow>
          Response 200 (VoterList
            ((\<lambda>(i, v). VoterJson i (name v) (linkedInProfile v) (candidateId v) (votedAt v))
               ` collection_docs (voters st))))"

text \<open>
  The custom claims the identity platform keeps per user, and
  \<open>admin.auth().setCustomUserClaims(uid, claims)\<close>: the platform refuses a uid that is not
  a non-empty string of at most 128 characters, and may fail by itself (\<open>fault\<close>).
\<close>

type_synonym claims = "string \<rightharpoonup> (string \<times> jsval) list"

fun setCustomUserClaims ::
  "js_error option \<Rightarrow> jsval \<Rightarrow> (string \<times> jsval) list \<Rightarrow> claims \<Rightarrow> js_error + claims" where
  "setCustomUserClaims (Some err) u c cl = Inl err"
| "setCustomUserClaims None (JStr s) c cl =
     (if s \<noteq> [] \<and> length s \<le> 128 then Inr (cl(s \<mapsto> c))
      else Inl (Error ''The uid must be a non-empty string with at most 128 characters.''))"
| "setCustomUserClaims None u c cl =
     Inl (Error ''The uid must be a non-empty string with at most 128 characters.'')"

text \<open>The handler of \<open>POST /make-admin\<close> (after \<open>verifyUser\<close> and \<open>requireAdmin\<close>).\<close>

definition make_admin_handler :: "js_error option \<Rightarrow> jsval \<Rightarrow> claims \<Rightarrow> response \<times> claims" where
  "make_admin_handler fault u cl =
     (if \<not> truthy u then (Response 400 (Message ''UID required''), cl)
      else (case setCustomUserClaims fault u [(''admin'', JBool True)] cl of
              Inl err \<Rightarrow> (Response 500 (MessageError ''Error setting admin'' (message err)), cl)
            | Inr cl' \<Rightarrow> (Response 200 (Message ''User is now admin!''), cl')))"

text \<open>
  \<open>GET /auth/linkedin\<close> redirects to the provider's authorisation page, built from the
  configured client id and redirect URI.
\<close>

definition linkedin_handler :: "string \<Rightarrow> string \<Rightarrow> response" where
  "linkedin_handler clientId redirectUri =
     Response 302 (Redirect
       (''https://www.linkedin.com/oauth/v2/authorization?response_type=code&client_id=''
          @ clientId @ ''&redirect_uri='' @ redirectUri
          @ ''&scope='' @ ''r_liteprofile r_emailaddress''))"

text \<open>
  \<open>GET /auth/linkedin/callback\<close>. \<open>exchange\<close> is the outcome of the calls to the provider
  and of \<open>createCustomToken\<close>: the minted token, or the exception of the first call that
  failed.
\<close>

definition linkedin_callback_handler :: "jsval \<Rightarrow> js_error + string \<Rightarrow> response" where
  "linkedin_callback_handler code exchange =
     (if \<not> truthy code then Response 400 (Text ''No code received from LinkedIn'')
      else (case exchange of
              Inl err \<Rightarrow> Response 500 (Text ''LinkedIn login failed'')
            | Inr firebaseToken \<Rightarrow> Response 200 (LoginPage firebaseToken)))"

text \<open>\<open>GET /\<close>; the text ends with the check-mark character, written as its UTF-8 bytes.\<close>

definition root_handler :: response where
  "root_handler = Response 200 (Text (''Voting Backend Running '' @ [CHR 0xE2, CHR 0x9C, CHR 0x85]))"

subsection \<open>The application\<close>

text \<open>
  The state the routes act on: the store and the identity platform's custom claims.
  \<open>env\<close> is what the outside decides for one request: the verdict on a token, a failure
  of the store or of the identity platform, the commit time, the outcome of the OAuth
  exchange, and the configuration read from the process environment.
\<close>

record world =
  db :: store
  customClaims :: claims

record env =
  verifyIdToken :: "string \<Rightarrow> js_error + decoded_token"
  storeFault :: "js_error option"
  authFault :: "js_error option"
  serverTime :: timestamp
  oauthExchange :: "js_error + string"
  clientId :: string
  redirectUri :: string

text \<open>
  A request as its route reads it: the \<open>Authorization\<close> header where the route has
  \<open>verifyUser\<close>, and the fields taken from the body or the query.
\<close>

datatype request =
    PostVote "string option" jsval jsval
  | GetCandidates
  | GetVoters "string option"
  | PostMakeAdmin "string option" jsval
  | GetAuthLinkedin
  | GetAuthLinkedinCallback jsval
  | GetRoot

text \<open>The routes, each with its middleware chain in the order of \<open>app.get\<close>/\<open>app.post\<close>.\<close>

fun handle :: "env \<Rightarrow> request \<Rightarrow> world \<Rightarrow> response \<times> world" where
  "handle e (PostVote authorization cid profile) w =
     (case verifyUser (verifyIdToken e) authorization of
        Inl res \<Rightarrow> (res, w)
      | Inr user \<Rightarrow>
          (case vote_handler (storeFault e) (serverTime e) user cid profile (db w) of
             (res, st') \<Rightarrow> (res, w\<lparr>db := st'\<rparr>)))"
| "handle e GetCandidates w = (candidates_handler (storeFault e) (db w), w)"
| "handle e (GetVoters authorization) w =
     (case verifyUser (verifyIdToken e) authorization of
        Inl res \<Rightarrow> (res, w)
      | Inr user \<Rightarrow> (voters_handler (storeFault e) (db w), w))"
| "handle e (PostMakeAdmin authorization u) w =
     (case verifyUser (verifyIdToken e) authorization of
        Inl res \<Rightarrow> (res, w)
      | Inr user \<Rightarrow>
          (case requireAdmin user of
             Some res \<Rightarrow> (res, w)
           | None \<Rightarrow>
               (case make_admin_handler (authFault e) u (customClaims w) of
                  (res, cl') \<Rightarrow> (res, w\<lparr>customClaims := cl'\<rparr>))))"
| "handle e GetAuthLinkedin w = (linkedin_handler (clientId e) (redirectUri e), w)"
| "handle e (GetAuthLinkedinCallback code) w =
     (linkedin_callback_handler code (oauthExchange e), w)"
| "handle e GetRoot w = (root_handler, w)"

text \<open>The state after a sequence of requests, served one after the other.\<close>

fun runs :: "world \<Rightarrow> (env \<times> request) list \<Rightarrow> world" where
  "runs w [] = w"
| "runs w ((e, r) # rs) = runs (snd (handle e r w)) rs"

subsection \<open>Histories of vote attempts\<close>

text \<open>
  One attempt is one run of the vote transaction: the keys of the voter and candidate
  documents and what the caller got. Attempts by any subjects, on a store that may fail, follow each other as atomic
  steps; concurrent requests are one of these orders. \<open>execution st evs st'\<close>: the
  attempts \<open>evs\<close>, oldest first, lead from \<open>st\<close> to \<open>st'\<close>.
\<close>

datatype attempt = Attempt string string "js_error + unit"

fun succeeded_by :: "string \<Rightarrow> attempt \<Rightarrow> bool" where
  "succeeded_by S (Attempt S' C r) = (S' = S \<and> r = Inr ())"

fun succeeded_for :: "string \<Rightarrow> attempt \<Rightarrow> bool" where
  "succeeded_for C (Attempt S C' r) = (C' = C \<and> r = Inr ())"

inductive execution :: "store \<Rightarrow> attempt list \<Rightarrow> store \<Rightarrow> bool" where
  start: "execution st [] st"
| step: "execution st evs st' \<Longrightarrow>
         runTransaction fault t (vote_transaction S C nm cid profile) st' = (r, st'') \<Longrightarrow>
         execution st (evs @ [Attempt S C r]) st''"

text \<open>
  \<open>candidates_grow st st'\<close>: the two stores have the same candidates and no count is
  smaller in \<open>st'\<close> than in \<open>st\<close>.
\<close>

definition candidates_grow :: "store \<Rightarrow> store \<Rightarrow> bool" where
  "candidates_grow st st' =
     (\<forall>i. case candidates st i of
            None \<Rightarrow> candidates st' i = None
          | Some c \<Rightarrow> (\<exists>c'. candidates st' i = Some c' \<and> votes c \<le> votes c'))"

subsection \<open>Example states\<close>

text \<open>
  The scenario of the spec's section 8: candidates \<open>A\<close> and \<open>B\<close> seeded with no votes, and
  the store after subject \<open>u1\<close> has voted for \<open>A\<close> at time 1.
\<close>

definition seeded :: store where
  "seeded = \<lparr>voters = Map.empty,
     candidates = [''A'' \<mapsto> \<lparr>candidateName = ''Alice'', votes = 0\<rparr>,
                   ''B'' \<mapsto> \<lparr>candidateName = ''Bob'', votes = 0\<rparr>]\<rparr>"

definition after_u1 :: store where
  "after_u1 = seeded\<lparr>voters := [''u1'' \<mapsto> \<lparr>name = JStr ''Uma'', candidateId = JStr ''A'',
                         linkedInProfile = Null, votedAt = Some 1\<rparr>],
     candidates := [''A'' \<mapsto> \<lparr>candidateName = ''Alice'', votes = 1\<rparr>,
                   ''B'' \<mapsto> \<lparr>candidateName = ''Bob'', votes = 0\<rparr>]\<rparr>"

text \<open>Two tokens without the admin claim; the second carries an empty display name.\<close>

definition uma :: decoded_token where
  "uma = \<lparr>uid = ''u1'', displayName = JStr ''Uma'', admin = Undefined\<rparr>"

definition nameless :: decoded_token where
  "nameless = \<lparr>uid = ''u2'', displayName = JStr [], admin = Undefined\<rparr>"

text \<open>An outside in which one token verifies and nothing fails, and a failure of the store.\<close>

definition env0 :: env where
  "env0 = \<lparr>verifyIdToken = (\<lambda>tok. if tok = ''tok-u1'' then Inr uma
                                 else Inl (Error ''Decoding Firebase ID token failed'')),
            storeFault = None, authFault = None, serverTime = 1,
            oauthExchange = Inl (Error ''Request failed with status code 400''),
            clientId = ''client'', redirectUri = ''https://example.org/callback''\<rparr>"

definition world0 :: world where
  "world0 = \<lparr>db = seeded, customClaims = Map.empty\<rparr>"

definition unavailable :: js_error where
  "unavailable = Error ''14 UNAVAILABLE: No connection established''"

section \<open>Properties\<close>

subsection \<open>Document references\<close>

text \<open>A non-empty path without \<open>/\<close> is the key of a document of the collection itself.\<close>

lemma contains_str_no_slash: "CHR ''/'' \<notin> set s \<Longrightarrow> \<not> contains_str s ''//''"
  by (induction s) auto

lemma split_from_no_slash: "CHR ''/'' \<notin> set s \<Longrightarrow> split_from ''/'' cur s = [cur @ s]"
  by (induction s arbitrary: cur) auto

lemma doc_plain: "s \<noteq> [] \<Longrightarrow> CHR ''/'' \<notin> set s \<Longrightarrow> doc (JStr s) = Inr s"
  by (simp add: contains_str_no_slash path_segments_def split_str_def split_from_no_slash)

lemma doc_nonempty: "doc (JStr s) = Inr r \<Longrightarrow> s \<noteq> []"
  by auto

text \<open>Paths the client refuses, and one it takes for a document of the collection.\<close>

lemma doc_examples:
  "doc (JStr ''A/B'') = Inl (not_a_document ''A/B'')"
  "doc (JStr ''A//B'') = Inl (invalid_path ''Paths must not contain //.'')"
  "doc (JNum 7) = Inl (invalid_path ''Path must be a non-empty string.'')"
  "doc (JStr ''A/'') = Inr ''A''"
  "doc (JStr ''A/B/C'') = Inr ''A/B/C''"
  by (simp_all add: path_segments_def split_str_def)

text \<open>From here on \<open>doc\<close> is unfolded only where a proof asks for it.\<close>

declare doc.simps [simp del]

subsection \<open>What one run of the vote transaction does\<close>

text \<open>
  The executor applied to the vote callback, with the buffered writes committed: the
  outcome by cases on the store's failure, the voter record and the candidate record.
\<close>

lemma vote_transaction_run:
  "runTransaction fault t (vote_transaction S C nm cid p) st =
     (case fault of
        Some err \<Rightarrow> (Inl err, st)
      | None \<Rightarrow>
          (if voters st S \<noteq> None then (Inl AlreadyVoted, st)
           else (case candidates st C of
                   None \<Rightarrow> (Inl CandidateNotFound, st)
                 | Some c \<Rightarrow>
                     (Inr (),
                      st\<lparr>voters := (voters st)(S \<mapsto>
                            \<lparr>name = nm, candidateId = cid, linkedInProfile = js_or p Null,
                             votedAt = Some t\<rparr>),
                         candidates := (candidates st)(C \<mapsto> c\<lparr>votes := votes c + 1\<rparr>)\<rparr>))))"
  by (simp add: runTransaction_def vote_transaction_def AlreadyVoted_def CandidateNotFound_def
      split: option.splits)

lemma abort_keeps_store:
  "fst (runTransaction fault t (vote_transaction S C nm cid p) st) = Inl err \<Longrightarrow>
   snd (runTransaction fault t (vote_transaction S C nm cid p) st) = st"
  by (simp add: vote_transaction_run split: option.splits if_splits)

lemma success_creates_record:
  "fst (runTransaction fault t (vote_transaction S C nm cid p) st) = Inr () \<Longrightarrow>
   voters st S = None \<and> voters (snd (runTransaction fault t (vote_transaction S C nm cid p) st)) S \<noteq> None"
  by (simp add: vote_transaction_run split: option.splits if_splits)

text \<open>The route handler with its \<open>try\<close>/\<open>catch\<close> unfolded, and the store it leaves.\<close>

lemma vote_handler_run:
  "vote_handler fault t user cid p st =
     (if \<not> truthy cid then (Response 400 (Message ''Candidate ID required''), st)
      else (case doc (JStr (uid user)) of
              Inl err \<Rightarrow> (vote_catch err, st)
            | Inr voterRef \<Rightarrow>
               (case doc cid of
                  Inl err \<Rightarrow> (vote_catch err, st)
                | Inr candidateRef \<Rightarrow>
                   (case runTransaction fault t
                      (vote_transaction voterRef candidateRef
                         (js_or (displayName user) (JStr ''Anonymous'')) cid p) st of
                      (Inl err, st') \<Rightarrow> (vote_catch err, st')
                    | (Inr u, st') \<Rightarrow> (Response 200 (Message ''Vote successful!''), st')))))"
  by (simp add: vote_handler_def vote_try_def Let_def split: sum.splits prod.splits)

lemma vote_handler_store:
  "snd (vote_handler fault t user cid p st) =
     (if \<not> truthy cid then st
      else (case doc (JStr (uid user)) of
              Inl err \<Rightarrow> st
            | Inr voterRef \<Rightarrow>
               (case doc cid of
                  Inl err \<Rightarrow> st
                | Inr candidateRef \<Rightarrow>
                    snd (runTransaction fault t
                      (vote_transaction voterRef candidateRef
                         (js_or (displayName user) (JStr ''Anonymous'')) cid p) st))))"
  by (simp add: vote_handler_run split: sum.splits prod.splits)

text \<open>Evaluations on the example states.\<close>

lemma seeded_u1: "castVote 1 ''u1'' (JStr ''Uma'') ''A'' Undefined seeded = (Inr (), after_u1)"
  by (simp add: castVote_def vote_transaction_run seeded_def after_u1_def js_or_def fun_upd_twist)

lemma verify_u1: "verifyUser (verifyIdToken env0) (Some ''Bearer tok-u1'') = Inr uma"
  by (simp add: verifyUser_def split_str_def env0_def)

subsection \<open>Histories: one success per subject, one count per success\<close>

text \<open>
  Along any history, the successful attempts of a subject that started without a record
  number one if the subject has a record now, and none otherwise.
\<close>

lemma execution_successes:
  assumes "execution st0 evs st" and "voters st0 S = None"
  shows "length (filter (succeeded_by S) evs) = (if voters st S = None then 0 else 1)"
  using assms
proof (induction rule: execution.induct)
  case (start st)
  then show ?case by simp
next
  case (step st evs st' fault t S' C nm cid profile r st'')
  from step.hyps(2) step.IH[OF step.prems] show ?case
    by (auto simp add: vote_transaction_run split: option.splits if_splits)
qed

text \<open>A candidate's count is its initial count plus the successful attempts for it.\<close>

lemma execution_votes:
  assumes "execution st0 evs st" and "candidates st0 C = Some c0"
  shows "candidates st C =
           Some (c0\<lparr>votes := votes c0 + int (length (filter (succeeded_for C) evs))\<rparr>)"
  using assms
proof (induction rule: execution.induct)
  case (start st)
  then show ?case by simp
next
  case (step st evs st' fault t S' C' nm cid profile r st'')
  from step.hyps(2) step.IH[OF step.prems] show ?case
    by (auto simp add: vote_transaction_run split: option.splits if_splits)
qed

lemma seeded_execution:
  "execution seeded [Attempt ''u1'' ''A'' (Inr ()), Attempt ''u1'' ''B'' (Inl AlreadyVoted)] after_u1"
proof -
  have 1: "execution seeded ([] @ [Attempt ''u1'' ''A'' (Inr ())]) after_u1"
    by (rule step [OF start, where fault = None and t = 1 and nm = "JStr ''Uma''"
          and cid = "JStr ''A''" and profile = Undefined])
       (use seeded_u1 in \<open>simp add: castVote_def\<close>)
  have "execution seeded (([] @ [Attempt ''u1'' ''A'' (Inr ())]) @ [Attempt ''u1'' ''B'' (Inl AlreadyVoted)]) after_u1"
    by (rule step [OF 1, where fault = None and t = 2 and nm = "JStr ''Uma''"
          and cid = "JStr ''B''" and profile = Undefined])
       (simp add: vote_transaction_run after_u1_def)
  then show ?thesis by simp
qed

text \<open>
  Every run of the application is such a history: a request either leaves the store as
  it is or runs the vote transaction once.
\<close>

lemma execution_append:
  "execution st' evs' st'' \<Longrightarrow> execution st evs st' \<Longrightarrow> execution st (evs @ evs') st''"
proof (induction rule: execution.induct)
  case (start st')
  then show ?case by simp
next
  case (step st' evs' st1 fault t S C nm cid profile r st2)
  from step.IH [OF step.prems] step.hyps(2)
  have "execution st ((evs @ evs') @ [Attempt S C r]) st2"
    by (rule execution.step)
  then show ?case by simp
qed

lemma handle_execution: "\<exists>evs. execution (db w) evs (db (snd (handle e r w)))"
proof (cases r)
  case (PostVote a cid p)
  show ?thesis
  proof (cases "verifyUser (verifyIdToken e) a")
    case (Inl res)
    with PostVote show ?thesis by (auto intro: execution.start)
  next
    case (Inr user)
    with PostVote
    have d: "db (snd (handle e r w))
            = snd (vote_handler (storeFault e) (serverTime e) user cid p (db w))"
      by (simp split: prod.splits)
    show ?thesis
    proof (cases "\<exists>v c. truthy cid \<and> doc (JStr (uid user)) = Inr v \<and> doc cid = Inr c")
      case True
      then obtain v c where v: "doc (JStr (uid user)) = Inr v" and c: "doc cid = Inr c"
        and tr: "truthy cid"
        by blast
      let ?r = "runTransaction (storeFault e) (serverTime e)
                  (vote_transaction v c (js_or (displayName user) (JStr ''Anonymous'')) cid p)
                  (db w)"
      have "execution (db w) ([] @ [Attempt v c (fst ?r)]) (snd ?r)"
        by (rule execution.step [OF execution.start]) simp
      moreover have "db (snd (handle e r w)) = snd ?r"
        unfolding d vote_handler_store using v c tr by simp
      ultimately show ?thesis by auto
    next
      case False
      then have "db (snd (handle e r w)) = db w"
        unfolding d vote_handler_store by (auto split: sum.splits)
      then show ?thesis by (auto intro: execution.start)
    qed
  qed
next
  case (PostMakeAdmin a u)
  then have "db (snd (handle e r w)) = db w"
    by (simp split: sum.splits option.splits prod.splits)
  then show ?thesis by (auto intro: execution.start)
next
  case (GetVoters a)
  then have "db (snd (handle e r w)) = db w"
    by (simp split: sum.splits)
  then show ?thesis by (auto intro: execution.start)
qed (auto intro: execution.start)

lemma runs_execution: "\<exists>evs. execution (db w) evs (db (runs w rs))"
proof (induction rs arbitrary: w)
  case Nil
  then show ?case by (auto intro: execution.start)
next
  case (Cons x rs)
  obtain e r where x: "x = (e, r)" by (cases x)
  from handle_execution [of w e r] obtain evs
    where 1: "execution (db w) evs (db (snd (handle e r w)))" by blast
  from Cons.IH [of "snd (handle e r w)"] obtain evs'
    where 2: "execution (db (snd (handle e r w))) evs' (db (runs (snd (handle e r w)) rs))"
    by blast
  from execution_append [OF 2 1] show ?case unfolding x by auto
qed

subsection \<open>Candidates under every request\<close>

lemma candidates_grow_refl: "candidates_grow st st"
  by (simp add: candidates_grow_def split: option.splits)

lemma candidates_grow_trans:
  "candidates_grow st st' \<Longrightarrow> candidates_grow st' st'' \<Longrightarrow> candidates_grow st st''"
  unfolding candidates_grow_def
proof (intro allI)
  fix i
  assume a: "\<forall>i. case candidates st i of None \<Rightarrow> candidates st' i = None
               | Some c \<Rightarrow> \<exists>c'. candidates st' i = Some c' \<and> votes c \<le> votes c'"
    and b: "\<forall>i. case candidates st' i of None \<Rightarrow> candidates st'' i = None
               | Some c \<Rightarrow> \<exists>c'. candidates st'' i = Some c' \<and> votes c \<le> votes c'"
  from a have a': "case candidates st i of None \<Rightarrow> candidates st' i = None
               | Some c \<Rightarrow> \<exists>c'. candidates st' i = Some c' \<and> votes c \<le> votes c'" ..
  from b have b': "case candidates st' i of None \<Rightarrow> candidates st'' i = None
               | Some c \<Rightarrow> \<exists>c'. candidates st'' i = Some c' \<and> votes c \<le> votes c'" ..
  from a' b' show "case candidates st i of None \<Rightarrow> candidates st'' i = None
               | Some c \<Rightarrow> \<exists>c'. candidates st'' i = Some c' \<and> votes c \<le> votes c'"
    by (cases "candidates st i"; cases "candidates st' i") (auto intro: order_trans)
qed

lemma transaction_grows:
  "candidates_grow st (snd (runTransaction fault t (vote_transaction S C nm cid p) st))"
  by (simp add: vote_transaction_run candidates_grow_def split: option.splits)

lemma vote_handler_grows: "candidates_grow st (snd (vote_handler fault t user cid p st))"
  unfolding vote_handler_store
  by (simp add: candidates_grow_refl transaction_grows split: sum.splits)

lemma handle_grows: "candidates_grow (db w) (db (snd (handle e r w)))"
proof (cases r)
  case (PostVote a cid p)
  show ?thesis
  proof (cases "verifyUser (verifyIdToken e) a")
    case (Inl res)
    with PostVote show ?thesis by (simp add: candidates_grow_refl)
  next
    case (Inr user)
    with PostVote
    have "db (snd (handle e r w))
            = snd (vote_handler (storeFault e) (serverTime e) user cid p (db w))"
      by (simp split: prod.splits)
    then show ?thesis by (simp add: vote_handler_grows)
  qed
next
  case (PostMakeAdmin a u)
  then show ?thesis
    by (simp add: candidates_grow_refl split: sum.splits option.splits prod.splits)
qed (simp_all add: candidates_grow_refl split: sum.splits)

lemma runs_grow: "candidates_grow (db w) (db (runs w rs))"
proof (induction rs arbitrary: w)
  case Nil
  then show ?case by (simp add: candidates_grow_refl)
next
  case (Cons x rs)
  obtain e r where x: "x = (e, r)" by (cases x)
  from handle_grows [of w e r] Cons.IH [of "snd (handle e r w)"] show ?case
    unfolding x by (simp add: candidates_grow_trans)
qed

lemma runs_u1:
  "runs world0 [(env0, PostVote (Some ''Bearer tok-u1'') (JStr ''A'') Undefined)]
     = \<lparr>db = after_u1, customClaims = Map.empty\<rparr>"
proof -
  have "vote_handler None 1 uma (JStr ''A'') Undefined seeded
          = (Response 200 (Message ''Vote successful!''), after_u1)"
    using seeded_u1 by (simp add: vote_handler_run castVote_def uma_def js_or_def doc_plain)
  then show ?thesis
    using verify_u1 by (simp add: world0_def env0_def)
qed

lemma list_after_u1:
  "fst (handle env0 GetCandidates \<lparr>db = after_u1, customClaims = Map.empty\<rparr>)
     = Response 200 (CandidateList {CandidateJson ''A'' ''Alice'' 1, CandidateJson ''B'' ''Bob'' 0})"
  by (auto simp add: candidates_handler_def env0_def after_u1_def collection_docs_def image_def
      split: if_splits)

section \<open>The claims\<close>

text \<open>
  C1. For a subject \<open>S\<close> without a voter record at the start, in every store reachable by
  any history of vote attempts (by any subjects, in any order, on a store that may
  fail): \<open>S\<close> has a record exactly when one of its attempts succeeded; at most one of
  its attempts succeeded; an attempt of \<open>S\<close> that succeeds finds no record and leaves
  one; and once the record exists every further attempt of \<open>S\<close>, for any candidate, is
  rejected with \<open>AlreadyVoted\<close> and changes nothing.
\<close>

theorem one_record_per_subject:
  assumes "execution st0 evs st" and "voters st0 S = None"
  shows "(voters st S \<noteq> None \<longleftrightarrow> (\<exists>ev \<in> set evs. succeeded_by S ev)) \<and>
         length (filter (succeeded_by S) evs) \<le> 1 \<and>
         (\<forall>t nm C p. fst (castVote t S nm C p st) = Inr () \<longrightarrow>
            voters st S = None \<and> voters (snd (castVote t S nm C p st)) S \<noteq> None) \<and>
         (voters st S \<noteq> None \<longrightarrow>
            (\<forall>t nm C p. castVote t S nm C p st = (Inl AlreadyVoted, st)))"
proof -
  have n: "length (filter (succeeded_by S) evs) = (if voters st S = None then 0 else 1)"
    using assms by (rule execution_successes)
  have "(voters st S \<noteq> None) = (filter (succeeded_by S) evs \<noteq> [])"
    using n by (cases "filter (succeeded_by S) evs") (auto split: if_splits)
  then have a: "voters st S \<noteq> None \<longleftrightarrow> (\<exists>ev \<in> set evs. succeeded_by S ev)"
    by (simp add: filter_empty_conv)
  have b: "length (filter (succeeded_by S) evs) \<le> 1"
    using n by simp
  have c: "\<forall>t nm C p. fst (castVote t S nm C p st) = Inr () \<longrightarrow>
            voters st S = None \<and> voters (snd (castVote t S nm C p st)) S \<noteq> None"
    unfolding castVote_def using success_creates_record by blast
  have d: "voters st S \<noteq> None \<longrightarrow>
            (\<forall>t nm C p. castVote t S nm C p st = (Inl AlreadyVoted, st))"
    by (simp add: castVote_def vote_transaction_run)
  from a b c d show ?thesis by blast
qed

theorem one_record_per_subject_witness:
  "execution seeded [Attempt ''u1'' ''A'' (Inr ()), Attempt ''u1'' ''B'' (Inl AlreadyVoted)] after_u1 \<and>
   voters seeded ''u1'' = None \<and> voters after_u1 ''u1'' \<noteq> None \<and>
   length (filter (succeeded_by ''u1'')
     [Attempt ''u1'' ''A'' (Inr ()), Attempt ''u1'' ''B'' (Inl AlreadyVoted)]) \<le> 1 \<and>
   castVote 3 ''u1'' (JStr ''Uma'') ''B'' Undefined after_u1 = (Inl AlreadyVoted, after_u1)"
proof -
  have v: "voters seeded ''u1'' = None" by (simp add: seeded_def)
  have w: "voters after_u1 ''u1'' \<noteq> None" by (simp add: after_u1_def)
  from one_record_per_subject [OF seeded_execution v] w seeded_execution v
  show ?thesis by blast
qed

text \<open>
  C2. The vote transaction, as the program runs it (callback, buffered writes, atomic
  commit), computes what the algorithm of the spec computes step by step: voter record
  first (\<open>AlreadyVoted\<close>), candidate second (\<open>CandidateNotFound\<close>), otherwise the new voter
  record with name, candidate id, profile reference and commit time together with the
  count raised by one. When the subject has a record and the candidate is absent the
  result is \<open>AlreadyVoted\<close>.
\<close>

theorem castVote_follows_algorithm:
  "castVote t S nm C p st = castVote_spec t S nm C (js_or p Null) st \<and>
   (voters st S \<noteq> None \<and> candidates st C = None \<longrightarrow>
      castVote t S nm C p st = (Inl AlreadyVoted, st))"
  by (auto simp add: castVote_def castVote_spec_def vote_transaction_run split: option.splits)

theorem castVote_follows_algorithm_witness:
  "voters after_u1 ''u1'' \<noteq> None \<and> candidates after_u1 ''X'' = None \<and>
   castVote 2 ''u1'' (JStr ''Uma'') ''X'' Undefined after_u1 = (Inl AlreadyVoted, after_u1) \<and>
   castVote 1 ''u1'' (JStr ''Uma'') ''A'' Undefined seeded
     = castVote_spec 1 ''u1'' (JStr ''Uma'') ''A'' Null seeded"
proof -
  have h: "voters after_u1 ''u1'' \<noteq> None \<and> candidates after_u1 ''X'' = None"
    by (simp add: after_u1_def)
  have a: "castVote 2 ''u1'' (JStr ''Uma'') ''X'' Undefined after_u1 = (Inl AlreadyVoted, after_u1)"
    using castVote_follows_algorithm [of 2 "''u1''" "JStr ''Uma''" "''X''" Undefined after_u1] h
    by blast
  have b: "castVote 1 ''u1'' (JStr ''Uma'') ''A'' Undefined seeded
     = castVote_spec 1 ''u1'' (JStr ''Uma'') ''A'' Null seeded"
    using castVote_follows_algorithm [of 1 "''u1''" "JStr ''Uma''" "''A''" Undefined seeded]
    by (simp add: js_or_def)
  from h a b show ?thesis by blast
qed

text \<open>
  C3, as stated, fails: a subject without a record that votes twice for a candidate
  that is not in the store is rejected twice with \<open>CandidateNotFound\<close>; there is no
  success and no \<open>AlreadyVoted\<close>. And a subject that has a record is rejected twice
  with \<open>AlreadyVoted\<close>, for a candidate that exists: no success, and the count stays.
\<close>

theorem double_vote_counterexample:
  "candidates seeded ''X'' = None \<and> voters seeded ''u1'' = None \<and>
   castVote 1 ''u1'' (JStr ''Uma'') ''X'' Undefined seeded = (Inl CandidateNotFound, seeded) \<and>
   castVote 2 ''u1'' (JStr ''Uma'') ''X'' Undefined seeded = (Inl CandidateNotFound, seeded) \<and>
   CandidateNotFound \<noteq> AlreadyVoted \<and>
   voters after_u1 ''u1'' \<noteq> None \<and> candidates after_u1 ''B'' \<noteq> None \<and>
   castVote 2 ''u1'' (JStr ''Uma'') ''B'' Undefined after_u1 = (Inl AlreadyVoted, after_u1) \<and>
   castVote 3 ''u1'' (JStr ''Uma'') ''B'' Undefined after_u1 = (Inl AlreadyVoted, after_u1)"
  by (simp add: castVote_def vote_transaction_run seeded_def after_u1_def
      CandidateNotFound_def AlreadyVoted_def)

text \<open>
  C3, amended. For a subject \<open>S\<close> without a voter record and a candidate \<open>C\<close> in the store:
  the first call for \<open>C\<close> succeeds, a second call by \<open>S\<close> (for any candidate) is rejected
  with \<open>AlreadyVoted\<close>, and after both the count of \<open>C\<close> is one more than before. In every
  history of attempts from that store, \<open>S\<close> succeeds at most once and the count of \<open>C\<close>
  has grown by the number of successful attempts for \<open>C\<close>.
\<close>

theorem double_vote_counts_once:
  assumes "voters st S = None" and "candidates st C = Some c"
  shows "fst (castVote t1 S nm1 C p1 st) = Inr () \<and>
         fst (castVote t2 S nm2 C' p2 (snd (castVote t1 S nm1 C p1 st))) = Inl AlreadyVoted \<and>
         candidates (snd (castVote t2 S nm2 C' p2 (snd (castVote t1 S nm1 C p1 st)))) C
           = Some (c\<lparr>votes := votes c + 1\<rparr>) \<and>
         (\<forall>evs st'. execution st evs st' \<longrightarrow>
            length (filter (succeeded_by S) evs) \<le> 1 \<and>
            candidates st' C
              = Some (c\<lparr>votes := votes c + int (length (filter (succeeded_for C) evs))\<rparr>))"
proof -
  have a: "castVote t1 S nm1 C p1 st =
     (Inr (), st\<lparr>voters := (voters st)(S \<mapsto>
                    \<lparr>name = nm1, candidateId = JStr C, linkedInProfile = js_or p1 Null,
                     votedAt = Some t1\<rparr>),
                 candidates := (candidates st)(C \<mapsto> c\<lparr>votes := votes c + 1\<rparr>)\<rparr>)"
    using assms by (simp add: castVote_def vote_transaction_run)
  have b: "castVote t2 S nm2 C' p2 (snd (castVote t1 S nm1 C p1 st))
             = (Inl AlreadyVoted, snd (castVote t1 S nm1 C p1 st))"
    unfolding a by (simp add: castVote_def vote_transaction_run)
  have c: "candidates (snd (castVote t1 S nm1 C p1 st)) C = Some (c\<lparr>votes := votes c + 1\<rparr>)"
    unfolding a by simp
  have d: "\<forall>evs st'. execution st evs st' \<longrightarrow>
            length (filter (succeeded_by S) evs) \<le> 1 \<and>
            candidates st' C
              = Some (c\<lparr>votes := votes c + int (length (filter (succeeded_for C) evs))\<rparr>)"
    using execution_successes [OF _ assms(1)] execution_votes [OF _ assms(2)] by simp
  from a b c d show ?thesis by simp
qed

theorem double_vote_counts_once_witness:
  "voters seeded ''u1'' = None \<and>
   candidates seeded ''A'' = Some \<lparr>candidateName = ''Alice'', votes = 0\<rparr> \<and>
   fst (castVote 1 ''u1'' (JStr ''Uma'') ''A'' Undefined seeded) = Inr () \<and>
   fst (castVote 2 ''u1'' (JStr ''Uma'') ''B'' Undefined
          (snd (castVote 1 ''u1'' (JStr ''Uma'') ''A'' Undefined seeded))) = Inl AlreadyVoted \<and>
   candidates (snd (castVote 2 ''u1'' (JStr ''Uma'') ''B'' Undefined
          (snd (castVote 1 ''u1'' (JStr ''Uma'') ''A'' Undefined seeded)))) ''A''
     = Some \<lparr>candidateName = ''Alice'', votes = 1\<rparr> \<and>
   candidates after_u1 ''A'' = Some \<lparr>candidateName = ''Alice'',
     votes = 0 + int (length (filter (succeeded_for ''A'')
        [Attempt ''u1'' ''A'' (Inr ()), Attempt ''u1'' ''B'' (Inl AlreadyVoted)]))\<rparr>"
proof -
  have v: "voters seeded ''u1'' = None" by (simp add: seeded_def)
  have c: "candidates seeded ''A'' = Some \<lparr>candidateName = ''Alice'', votes = 0\<rparr>"
    by (simp add: seeded_def)
  from double_vote_counts_once [OF v c, of 1 "JStr ''Uma''" Undefined 2 "JStr ''Uma''" "''B''" Undefined]
    seeded_execution v c
  show ?thesis by simp
qed

text \<open>
  C4, as stated, fails: for a subject that has already voted, a vote for a candidate
  that is not in the store is rejected with \<open>AlreadyVoted\<close>, not \<open>CandidateNotFound\<close>.
\<close>

theorem absent_candidate_counterexample:
  "candidates after_u1 ''X'' = None \<and>
   castVote 2 ''u1'' (JStr ''Uma'') ''X'' Undefined after_u1 = (Inl AlreadyVoted, after_u1) \<and>
   AlreadyVoted \<noteq> CandidateNotFound"
  by (simp add: castVote_def vote_transaction_run after_u1_def CandidateNotFound_def AlreadyVoted_def)

text \<open>
  C4, amended. For a subject without a voter record and a candidate id that is not in
  the store, \<open>castVote\<close> returns \<open>CandidateNotFound\<close> and the store is unchanged. Whenever
  the transaction is rejected, whatever the reason (\<open>AlreadyVoted\<close>, \<open>CandidateNotFound\<close>
  or a failure of the store), the store is unchanged.
\<close>

theorem abort_leaves_store_unchanged:
  "(voters st S = None \<and> candidates st C = None \<longrightarrow>
      castVote t S nm C p st = (Inl CandidateNotFound, st)) \<and>
   (fst (castVote t S nm C p st) = Inl err \<longrightarrow> snd (castVote t S nm C p st) = st) \<and>
   (fst (runTransaction fault t (vote_transaction S C nm cid p) st) = Inl err \<longrightarrow>
      snd (runTransaction fault t (vote_transaction S C nm cid p) st) = st)"
  by (simp add: castVote_def abort_keeps_store) (simp add: vote_transaction_run)

theorem abort_leaves_store_unchanged_witness:
  "voters seeded ''u1'' = None \<and> candidates seeded ''X'' = None \<and>
   castVote 1 ''u1'' (JStr ''Uma'') ''X'' Undefined seeded = (Inl CandidateNotFound, seeded) \<and>
   fst (castVote 2 ''u1'' (JStr ''Uma'') ''B'' Undefined after_u1) = Inl AlreadyVoted \<and>
   snd (castVote 2 ''u1'' (JStr ''Uma'') ''B'' Undefined after_u1) = after_u1 \<and>
   fst (runTransaction (Some unavailable) 2
          (vote_transaction ''u2'' ''B'' (JStr ''Vic'') (JStr ''B'') Undefined) after_u1) = Inl unavailable \<and>
   snd (runTransaction (Some unavailable) 2
          (vote_transaction ''u2'' ''B'' (JStr ''Vic'') (JStr ''B'') Undefined) after_u1) = after_u1"
proof -
  have h: "voters seeded ''u1'' = None \<and> candidates seeded ''X'' = None"
    by (simp add: seeded_def)
  have f: "fst (castVote 2 ''u1'' (JStr ''Uma'') ''B'' Undefined after_u1) = Inl AlreadyVoted"
    by (simp add: castVote_def vote_transaction_run after_u1_def)
  have g: "fst (runTransaction (Some unavailable) 2
          (vote_transaction ''u2'' ''B'' (JStr ''Vic'') (JStr ''B'') Undefined) after_u1) = Inl unavailable"
    by (simp add: vote_transaction_run)
  from abort_leaves_store_unchanged [of seeded "''u1''" "''X''" 1 "JStr ''Uma''" Undefined] h
  have 1: "castVote 1 ''u1'' (JStr ''Uma'') ''X'' Undefined seeded = (Inl CandidateNotFound, seeded)"
    by blast
  from abort_leaves_store_unchanged [of after_u1 "''u1''" "''B''" 2 "JStr ''Uma''" Undefined AlreadyVoted] f
  have 2: "snd (castVote 2 ''u1'' (JStr ''Uma'') ''B'' Undefined after_u1) = after_u1"
    by blast
  from abort_leaves_store_unchanged [of after_u1 "''u2''" "''B''" 2 "JStr ''Vic''" Undefined unavailable "Some unavailable" "JStr ''B''"] g
  have 3: "snd (runTransaction (Some unavailable) 2
          (vote_transaction ''u2'' ''B'' (JStr ''Vic'') (JStr ''B'') Undefined) after_u1) = after_u1"
    by blast
  from h f g 1 2 3 show ?thesis by blast
qed

text \<open>
  C5, as stated, fails: a failure of the store during a vote is answered with 400 and
  the failure's own message, and the two listing routes answer a failure with 500 and
  the failure's message in the field \<open>error\<close>.
\<close>

theorem upstream_failure_counterexample:
  "vote_handler (Some unavailable) 2 uma (JStr ''A'') Undefined seeded
     = (Response 400 (Message ''14 UNAVAILABLE: No connection established''), seeded) \<and>
   candidates_handler (Some unavailable) seeded
     = Response 500 (MessageError ''Error fetching candidates''
                       ''14 UNAVAILABLE: No connection established'') \<and>
   voters_handler (Some unavailable) seeded
     = Response 500 (MessageError ''Error fetching voters''
                       ''14 UNAVAILABLE: No connection established'')"
  by (simp add: vote_handler_run vote_transaction_run candidates_handler_def voters_handler_def
      unavailable_def uma_def vote_catch_def doc_plain)

text \<open>
  C5, amended. In the vote route every exception thrown in the \<open>try\<close> block is answered
  with 400 and the exception's message (\<open>Voting failed\<close> when it is empty), with the store
  unchanged, and the route never answers 500: so are answered the client's refusal of
  a document path (for the voter or for the candidate), a failure of the store, and the
  two rejections of the transaction. The listing routes answer a failure of the store
  with 500, a fixed message, and the failure's message in the field \<open>error\<close>.
\<close>

theorem exceptions_to_responses:
  "(fst (vote_try fault t user cid p st) = Inl err \<longrightarrow>
      vote_handler fault t user cid p st = (vote_catch err, st)) \<and>
   vote_catch err
     = Response 400 (Message (if message err \<noteq> [] then message err else ''Voting failed'')) \<and>
   (fst (vote_handler fault t user cid p st) = Response n b \<longrightarrow> n = 200 \<or> n = 400) \<and>
   (truthy cid \<and> doc (JStr (uid user)) = Inl err \<longrightarrow>
      vote_handler fault t user cid p st = (vote_catch err, st)) \<and>
   (truthy cid \<and> doc (JStr (uid user)) = Inr voterRef \<and> doc cid = Inl err \<longrightarrow>
      vote_handler fault t user cid p st = (vote_catch err, st)) \<and>
   (truthy cid \<and> doc (JStr (uid user)) = Inr voterRef \<and> doc cid = Inr candidateRef \<longrightarrow>
      vote_handler (Some err) t user cid p st = (vote_catch err, st) \<and>
      (voters st voterRef \<noteq> None \<longrightarrow>
         vote_handler None t user cid p st
           = (Response 400 (Message ''You have already voted''), st)) \<and>
      (voters st voterRef = None \<and> candidates st candidateRef = None \<longrightarrow>
         vote_handler None t user cid p st
           = (Response 400 (Message ''Candidate not found''), st))) \<and>
   candidates_handler (Some err) st
     = Response 500 (MessageError ''Error fetching candidates'' (message err)) \<and>
   voters_handler (Some err) st
     = Response 500 (MessageError ''Error fetching voters'' (message err))"
proof -
  have thrown: "fst (vote_try fault t user cid p st) = Inl err \<longrightarrow>
      vote_handler fault t user cid p st = (vote_catch err, st)"
  proof
    assume e: "fst (vote_try fault t user cid p st) = Inl err"
    have "snd (vote_try fault t user cid p st) = st"
      using e
      by (auto simp add: vote_try_def Let_def vote_transaction_run
          split: if_splits sum.splits prod.splits option.splits)
    with e show "vote_handler fault t user cid p st = (vote_catch err, st)"
      by (cases "vote_try fault t user cid p st") (simp add: vote_handler_def)
  qed
  have status: "fst (vote_handler fault t user cid p st) = Response n b \<longrightarrow> n = 200 \<or> n = 400"
    by (auto simp add: vote_handler_run vote_catch_def split: sum.splits prod.splits if_splits)
  have paths: "(truthy cid \<and> doc (JStr (uid user)) = Inl err \<longrightarrow>
      vote_handler fault t user cid p st = (vote_catch err, st)) \<and>
   (truthy cid \<and> doc (JStr (uid user)) = Inr voterRef \<and> doc cid = Inl err \<longrightarrow>
      vote_handler fault t user cid p st = (vote_catch err, st))"
    by (simp add: vote_handler_run)
  have run: "truthy cid \<and> doc (JStr (uid user)) = Inr voterRef \<and> doc cid = Inr candidateRef \<longrightarrow>
      vote_handler (Some err) t user cid p st = (vote_catch err, st) \<and>
      (voters st voterRef \<noteq> None \<longrightarrow>
         vote_handler None t user cid p st
           = (Response 400 (Message ''You have already voted''), st)) \<and>
      (voters st voterRef = None \<and> candidates st candidateRef = None \<longrightarrow>
         vote_handler None t user cid p st
           = (Response 400 (Message ''Candidate not found''), st))"
    by (simp add: vote_handler_run vote_transaction_run vote_catch_def
        AlreadyVoted_def CandidateNotFound_def)
  have lists: "candidates_handler (Some err) st
     = Response 500 (MessageError ''Error fetching candidates'' (message err)) \<and>
   voters_handler (Some err) st
     = Response 500 (MessageError ''Error fetching voters'' (message err))"
    by (simp add: candidates_handler_def voters_handler_def)
  from thrown status paths run lists show ?thesis
    by (simp add: vote_catch_def)
qed

theorem exceptions_to_responses_witness:
  "truthy (JStr ''A/B'') \<and> doc (JStr (uid uma)) = Inr ''u1'' \<and>
   doc (JStr ''A/B'') = Inl (not_a_document ''A/B'') \<and>
   vote_handler None 2 uma (JStr ''A/B'') Undefined seeded
     = (Response 400 (Message (message (not_a_document ''A/B''))), seeded) \<and>
   doc (JStr ''X'') = Inr ''X'' \<and> voters after_u1 ''u1'' \<noteq> None \<and>
   voters seeded ''u1'' = None \<and> candidates seeded ''X'' = None \<and>
   vote_handler None 2 uma (JStr ''X'') Undefined after_u1
     = (Response 400 (Message ''You have already voted''), after_u1) \<and>
   vote_handler None 2 uma (JStr ''X'') Undefined seeded
     = (Response 400 (Message ''Candidate not found''), seeded) \<and>
   vote_handler (Some (Error [])) 2 uma (JStr ''X'') Undefined seeded
     = (Response 400 (Message ''Voting failed''), seeded) \<and>
   fst (vote_try (Some unavailable) 2 uma (JStr ''A'') Undefined seeded) = Inl unavailable \<and>
   vote_handler (Some unavailable) 2 uma (JStr ''A'') Undefined seeded
     = (Response 400 (Message ''14 UNAVAILABLE: No connection established''), seeded)"
proof -
  have u: "doc (JStr (uid uma)) = Inr ''u1''" by (simp add: uma_def doc_plain)
  have x: "doc (JStr ''X'') = Inr ''X''" by (simp add: doc_plain)
  have ab: "doc (JStr ''A/B'') = Inl (not_a_document ''A/B'')" by (rule doc_examples)
  have tr: "truthy (JStr ''A/B'') \<and> truthy (JStr ''X'')" by simp
  have h: "voters after_u1 ''u1'' \<noteq> None \<and> voters seeded ''u1'' = None \<and>
           candidates seeded ''X'' = None"
    by (simp add: after_u1_def seeded_def)
  have th: "fst (vote_try (Some unavailable) 2 uma (JStr ''A'') Undefined seeded) = Inl unavailable"
    by (simp add: vote_try_def Let_def uma_def doc_plain vote_transaction_run)
  have m: "message (not_a_document ''A/B'') \<noteq> []" by (simp add: not_a_document_def)
  from exceptions_to_responses
         [of None 2 uma "JStr ''A/B''" Undefined seeded "not_a_document ''A/B''" _ _ "''u1''"]
       tr u ab m
  have 1: "vote_handler None 2 uma (JStr ''A/B'') Undefined seeded
     = (Response 400 (Message (message (not_a_document ''A/B''))), seeded)"
    by simp
  from exceptions_to_responses
         [of None 2 uma "JStr ''X''" Undefined after_u1 "Error []" _ _ "''u1''" "''X''"] tr u x h
  have 2: "vote_handler None 2 uma (JStr ''X'') Undefined after_u1
     = (Response 400 (Message ''You have already voted''), after_u1)"
    by blast
  from exceptions_to_responses
         [of None 2 uma "JStr ''X''" Undefined seeded "Error []" _ _ "''u1''" "''X''"] tr u x h
  have 3: "vote_handler None 2 uma (JStr ''X'') Undefined seeded
     = (Response 400 (Message ''Candidate not found''), seeded)"
    and 4: "vote_handler (Some (Error [])) 2 uma (JStr ''X'') Undefined seeded
     = (Response 400 (Message ''Voting failed''), seeded)"
    by simp_all
  from exceptions_to_responses
         [of "Some unavailable" 2 uma "JStr ''A''" Undefined seeded unavailable] th
  have 5: "vote_handler (Some unavailable) 2 uma (JStr ''A'') Undefined seeded
     = (Response 400 (Message ''14 UNAVAILABLE: No connection established''), seeded)"
    by (simp add: unavailable_def)
  from tr u ab 1 x h 2 3 4 th 5 show ?thesis by blast
qed

text \<open>
  C6. A \<open>POST /api/vote\<close> with no \<open>Authorization\<close> header, or with one that does not start
  with \<open>Bearer \<close>, is answered with 401 and leaves the store and the claims as they were.
\<close>

theorem vote_without_bearer_is_401:
  "authorization = None \<or> (\<exists>h. authorization = Some h \<and> \<not> prefix ''Bearer '' h) \<Longrightarrow>
   handle e (PostVote authorization cid p) w = (Response 401 (Message ''Unauthorized''), w)"
  by (auto simp add: verifyUser_def)

theorem vote_without_bearer_is_401_witness:
  "\<not> prefix ''Bearer '' ''Basic dXNlcjpwdw=='' \<and>
   handle env0 (PostVote (Some ''Basic dXNlcjpwdw=='') (JStr ''A'') Undefined) world0
     = (Response 401 (Message ''Unauthorized''), world0) \<and>
   handle env0 (PostVote None (JStr ''A'') Undefined) world0
     = (Response 401 (Message ''Unauthorized''), world0)"
proof -
  have h: "\<not> prefix ''Bearer '' ''Basic dXNlcjpwdw==''" by simp
  from vote_without_bearer_is_401 [of "Some ''Basic dXNlcjpwdw==''" env0 "JStr ''A''" Undefined world0]
    vote_without_bearer_is_401 [of None env0 "JStr ''A''" Undefined world0] h
  show ?thesis by simp
qed

text \<open>
  C7. A \<open>POST /make-admin\<close> whose token verifies and whose \<open>admin\<close> claim is missing (or
  otherwise falsy) is answered with 403, for every body and whether or not the identity
  platform would fail; the claims and the store are as they were.
\<close>

theorem make_admin_by_non_admin_is_403:
  "verifyUser (verifyIdToken e) authorization = Inr user \<Longrightarrow> \<not> truthy (admin user) \<Longrightarrow>
   handle e (PostMakeAdmin authorization u) w
     = (Response 403 (Message ''Access denied (Admin only)''), w)"
  by (simp add: requireAdmin_def)

theorem make_admin_by_non_admin_is_403_witness:
  "verifyUser (verifyIdToken env0) (Some ''Bearer tok-u1'') = Inr uma \<and> \<not> truthy (admin uma) \<and>
   handle env0 (PostMakeAdmin (Some ''Bearer tok-u1'') (JStr ''u1'')) world0
     = (Response 403 (Message ''Access denied (Admin only)''), world0)"
proof -
  have a: "\<not> truthy (admin uma)" by (simp add: uma_def)
  from make_admin_by_non_admin_is_403 [OF verify_u1 a, of "JStr ''u1''" world0] verify_u1 a
  show ?thesis by simp
qed

text \<open>
  C8. Over any sequence of requests the set of candidates stays the one that was seeded
  and no count gets smaller; every candidate that \<open>GET /api/candidates\<close> lists afterwards
  was seeded, and its count is non-negative if the seeded counts were.
\<close>

theorem candidate_counts_never_decrease:
  "dom (candidates (db (runs w rs))) = dom (candidates (db w)) \<and>
   (\<forall>i c. candidates (db w) i = Some c \<longrightarrow>
      (\<exists>c'. candidates (db (runs w rs)) i = Some c' \<and> votes c \<le> votes c')) \<and>
   (\<forall>e cs i n v.
      fst (handle e GetCandidates (runs w rs)) = Response 200 (CandidateList cs) \<and>
      CandidateJson i n v \<in> cs \<longrightarrow>
        i \<in> dom (candidates (db w)) \<and>
        ((\<forall>j c. candidates (db w) j = Some c \<longrightarrow> 0 \<le> votes c) \<longrightarrow> 0 \<le> v))"
proof -
  have g: "\<And>i. case candidates (db w) i of
            None \<Rightarrow> candidates (db (runs w rs)) i = None
          | Some c \<Rightarrow> (\<exists>c'. candidates (db (runs w rs)) i = Some c' \<and> votes c \<le> votes c')"
    using runs_grow [of w rs] by (simp add: candidates_grow_def)
  have a: "dom (candidates (db (runs w rs))) = dom (candidates (db w))"
  proof (rule set_eqI)
    fix i
    from g [of i] show "i \<in> dom (candidates (db (runs w rs))) \<longleftrightarrow> i \<in> dom (candidates (db w))"
      by (cases "candidates (db w) i") auto
  qed
  have b: "\<forall>i c. candidates (db w) i = Some c \<longrightarrow>
      (\<exists>c'. candidates (db (runs w rs)) i = Some c' \<and> votes c \<le> votes c')"
  proof (intro allI impI)
    fix i c
    assume "candidates (db w) i = Some c"
    with g [of i] show "\<exists>c'. candidates (db (runs w rs)) i = Some c' \<and> votes c \<le> votes c'"
      by simp
  qed
  have c: "\<forall>e cs i n v.
      fst (handle e GetCandidates (runs w rs)) = Response 200 (CandidateList cs) \<and>
      CandidateJson i n v \<in> cs \<longrightarrow>
        i \<in> dom (candidates (db w)) \<and>
        ((\<forall>j c. candidates (db w) j = Some c \<longrightarrow> 0 \<le> votes c) \<longrightarrow> 0 \<le> v)"
  proof (intro allI impI, elim conjE)
    fix e cs i n v
    assume r: "fst (handle e GetCandidates (runs w rs)) = Response 200 (CandidateList cs)"
      and m: "CandidateJson i n v \<in> cs"
    from r m have "\<exists>c'. candidates (db (runs w rs)) i = Some c' \<and> votes c' = v"
      by (auto simp add: candidates_handler_def collection_docs_def split: option.splits)
    then obtain c' where c': "candidates (db (runs w rs)) i = Some c'" and v: "votes c' = v"
      by blast
    from c' a have d: "i \<in> dom (candidates (db w))" by blast
    then obtain c0 where c0: "candidates (db w) i = Some c0" by blast
    with b c' have "votes c0 \<le> votes c'" by fastforce
    with c0 v d show "i \<in> dom (candidates (db w)) \<and>
        ((\<forall>j c. candidates (db w) j = Some c \<longrightarrow> 0 \<le> votes c) \<longrightarrow> 0 \<le> v)"
      by fastforce
  qed
  from a b c show ?thesis by blast
qed

theorem candidate_counts_never_decrease_witness:
  "dom (candidates (db (runs world0
          [(env0, PostVote (Some ''Bearer tok-u1'') (JStr ''A'') Undefined)])))
     = dom (candidates (db world0)) \<and>
   fst (handle env0 GetCandidates
          (runs world0 [(env0, PostVote (Some ''Bearer tok-u1'') (JStr ''A'') Undefined)]))
     = Response 200 (CandidateList {CandidateJson ''A'' ''Alice'' 1, CandidateJson ''B'' ''Bob'' 0}) \<and>
   ''A'' \<in> dom (candidates (db world0)) \<and>
   map_option votes (candidates (db world0) ''A'') = Some 0 \<and>
   map_option votes (candidates (db (runs world0
          [(env0, PostVote (Some ''Bearer tok-u1'') (JStr ''A'') Undefined)])) ''A'') = Some 1"
proof -
  let ?rs = "[(env0, PostVote (Some ''Bearer tok-u1'') (JStr ''A'') Undefined)]"
  have h: "\<forall>j c. candidates (db world0) j = Some c \<longrightarrow> 0 \<le> votes c"
    by (auto simp add: world0_def seeded_def split: if_splits)
  have l: "fst (handle env0 GetCandidates (runs world0 ?rs))
     = Response 200 (CandidateList {CandidateJson ''A'' ''Alice'' 1, CandidateJson ''B'' ''Bob'' 0})"
    unfolding runs_u1 by (rule list_after_u1)
  have m: "CandidateJson ''A'' ''Alice'' 1
             \<in> {CandidateJson ''A'' ''Alice'' 1, CandidateJson ''B'' ''Bob'' 0}"
    by simp
  note t = candidate_counts_never_decrease [of world0 ?rs]
  from t have 1: "dom (candidates (db (runs world0 ?rs))) = dom (candidates (db world0))"
    by blast
  from t l m h have 2: "''A'' \<in> dom (candidates (db world0)) \<and> (0::int) \<le> 1"
    by blast
  have 3: "map_option votes (candidates (db world0) ''A'') = Some 0"
    by (simp add: world0_def seeded_def)
  have 4: "map_option votes (candidates (db (runs world0 ?rs)) ''A'') = Some 1"
    unfolding runs_u1 by (simp add: after_u1_def)
  from 1 l 2 3 4 show ?thesis by blast
qed

text \<open>
  C9, as stated, fails: a token that carries the empty string as its display name
  votes, and the stored name is \<open>Anonymous\<close>, not the token's display name.
\<close>

theorem empty_display_name_counterexample:
  "displayName nameless = JStr [] \<and> JStr [] \<noteq> Undefined \<and>
   fst (vote_handler None 5 nameless (JStr ''A'') Undefined seeded)
     = Response 200 (Message ''Vote successful!'') \<and>
   map_option name (voters (snd (vote_handler None 5 nameless (JStr ''A'') Undefined seeded)) ''u2'')
     = Some (JStr ''Anonymous'')"
  by (simp add: vote_handler_run vote_transaction_run nameless_def seeded_def js_or_def doc_plain)

text \<open>
  C9, amended. After a successful vote the voter record, stored under the key of the
  voter's document (the uid itself when it has no \<open>/\<close>), has as name the token's display
  name when that is truthy and \<open>Anonymous\<close> otherwise (no display name, or an empty
  string, null, zero or false), and as profile the body's \<open>linkedInProfile\<close> when that is
  truthy and null otherwise, so null whenever the body omits it.
\<close>

theorem stored_voter_defaults:
  "fst (vote_handler fault t user cid p st) = Response 200 (Message ''Vote successful!'') \<Longrightarrow>
   \<exists>voterRef v.
       doc (JStr (uid user)) = Inr voterRef \<and>
       (CHR ''/'' \<notin> set (uid user) \<longrightarrow> voterRef = uid user) \<and>
       voters (snd (vote_handler fault t user cid p st)) voterRef = Some v \<and>
       name v = (if truthy (displayName user) then displayName user else JStr ''Anonymous'') \<and>
       (displayName user = Undefined \<longrightarrow> name v = JStr ''Anonymous'') \<and>
       linkedInProfile v = (if truthy p then p else Null) \<and>
       (p = Undefined \<longrightarrow> linkedInProfile v = Null)"
proof -
  assume ok: "fst (vote_handler fault t user cid p st) = Response 200 (Message ''Vote successful!'')"
  have tr: "truthy cid"
    using ok by (auto simp add: vote_handler_run split: if_splits)
  obtain voterRef where v: "doc (JStr (uid user)) = Inr voterRef"
    using ok tr by (cases "doc (JStr (uid user))") (auto simp add: vote_handler_run vote_catch_def)
  obtain candidateRef where c: "doc cid = Inr candidateRef"
    using ok tr v by (cases "doc cid") (auto simp add: vote_handler_run vote_catch_def)
  have plain: "CHR ''/'' \<notin> set (uid user) \<longrightarrow> voterRef = uid user"
  proof
    assume n: "CHR ''/'' \<notin> set (uid user)"
    have "uid user \<noteq> []" using v by (rule doc_nonempty)
    with n v show "voterRef = uid user" by (simp add: doc_plain)
  qed
  have "\<exists>v. voters (snd (vote_handler fault t user cid p st)) voterRef = Some v \<and>
       name v = (if truthy (displayName user) then displayName user else JStr ''Anonymous'') \<and>
       linkedInProfile v = (if truthy p then p else Null)"
    using ok tr v c
    by (auto simp add: vote_handler_run vote_transaction_run vote_catch_def js_or_def
        split: option.splits if_splits)
  with v plain show ?thesis by auto
qed

theorem stored_voter_defaults_witness:
  "fst (vote_handler None 1 uma (JStr ''A'') Undefined seeded)
     = Response 200 (Message ''Vote successful!'') \<and>
   map_option name (voters (snd (vote_handler None 1 uma (JStr ''A'') Undefined seeded)) ''u1'')
     = Some (JStr ''Uma'') \<and>
   map_option linkedInProfile
       (voters (snd (vote_handler None 1 uma (JStr ''A'') Undefined seeded)) ''u1'')
     = Some Null"
proof -
  have h: "fst (vote_handler None 1 uma (JStr ''A'') Undefined seeded)
     = Response 200 (Message ''Vote successful!'')"
    by (simp add: vote_handler_run vote_transaction_run uma_def seeded_def doc_plain)
  from stored_voter_defaults [OF h] h show ?thesis
    by (auto simp add: uma_def doc_plain)
qed

text \<open>
  C10. The vote handler answers a body whose \<open>candidateId\<close> is the empty string with 400
  \<open>Candidate ID required\<close> and leaves the store as it was, whatever the store would have
  done with a transaction, exactly as it answers a body without the field; so does the
  route for every request whose token verifies.
\<close>

theorem empty_candidate_id_is_400:
  "vote_handler fault t user (JStr []) p st
     = (Response 400 (Message ''Candidate ID required''), st) \<and>
   vote_handler fault t user (JStr []) p st = vote_handler fault t user Undefined p st \<and>
   (verifyUser (verifyIdToken e) authorization = Inr user \<longrightarrow>
      handle e (PostVote authorization (JStr []) p) w
        = (Response 400 (Message ''Candidate ID required''), w))"
  by (simp add: vote_handler_run)

theorem empty_candidate_id_is_400_witness:
  "verifyUser (verifyIdToken env0) (Some ''Bearer tok-u1'') = Inr uma \<and>
   handle env0 (PostVote (Some ''Bearer tok-u1'') (JStr []) Undefined) world0
     = (Response 400 (Message ''Candidate ID required''), world0)"
  using empty_candidate_id_is_400 [of None 1 uma Undefined seeded env0 "Some ''Bearer tok-u1''" world0]
    verify_u1
  by simp

end
